theory Spec2Isabelle
  imports Complex_Main
begin

section \<open>ECMAScript numbers\<close>

text \<open>
  The source computes with the ECMAScript type \<^verbatim>\<open>number\<close>.  A value is \<open>NaN\<close>, one of
  the two infinities, or a finite value.  Finite values are kept as exact rationals:
  comparisons, which decide every branch of the engine, are exact on doubles as well,
  while the rounding of \<open>+\<close>, \<open>-\<close>, \<open>*\<close> and \<open>/\<close> to the nearest double, overflow to
  infinity and the sign of zero are not represented.
\<close>

datatype number = NaN | PosInf | NegInf | Fin rat

fun jneg :: "number \<Rightarrow> number" where
  "jneg NaN = NaN"
| "jneg PosInf = NegInf"
| "jneg NegInf = PosInf"
| "jneg (Fin x) = Fin (- x)"

text \<open>\<^verbatim>\<open>a + b\<close>\<close>

fun jadd :: "number \<Rightarrow> number \<Rightarrow> number" where
  "jadd NaN b = NaN"
| "jadd a NaN = NaN"
| "jadd PosInf NegInf = NaN"
| "jadd NegInf PosInf = NaN"
| "jadd PosInf b = PosInf"
| "jadd NegInf b = NegInf"
| "jadd (Fin x) PosInf = PosInf"
| "jadd (Fin x) NegInf = NegInf"
| "jadd (Fin x) (Fin y) = Fin (x + y)"

text \<open>\<^verbatim>\<open>a - b\<close>\<close>

definition jsub :: "number \<Rightarrow> number \<Rightarrow> number" where
  "jsub a b = jadd a (jneg b)"

text \<open>The infinity whose sign is that of a product or quotient of two signed factors.\<close>

definition signedInf :: "bool \<Rightarrow> number" where
  "signedInf negative = (if negative then NegInf else PosInf)"

text \<open>Whether a value other than \<open>NaN\<close> is below zero.\<close>

fun isNegative :: "number \<Rightarrow> bool" where
  "isNegative NegInf = True"
| "isNegative (Fin x) = (x < 0)"
| "isNegative a = False"

text \<open>\<^verbatim>\<open>a * b\<close>\<close>

fun jmul :: "number \<Rightarrow> number \<Rightarrow> number" where
  "jmul NaN b = NaN"
| "jmul a NaN = NaN"
| "jmul (Fin x) (Fin y) = Fin (x * y)"
| "jmul a b =
     (if a = Fin 0 \<or> b = Fin 0 then NaN else signedInf (isNegative a \<noteq> isNegative b))"

text \<open>\<^verbatim>\<open>a / b\<close>: a zero divisor gives an infinity, or \<open>NaN\<close> for \<open>0 / 0\<close>.\<close>

fun jdiv :: "number \<Rightarrow> number \<Rightarrow> number" where
  "jdiv NaN b = NaN"
| "jdiv a NaN = NaN"
| "jdiv (Fin x) (Fin y) =
     (if y = 0 then (if x = 0 then NaN else signedInf (x < 0)) else Fin (x / y))"
| "jdiv (Fin x) b = Fin 0"
| "jdiv a (Fin y) = signedInf (isNegative a \<noteq> (y < 0))"
| "jdiv a b = NaN"

text \<open>\<^verbatim>\<open>Math.abs(a)\<close>\<close>

fun jabs :: "number \<Rightarrow> number" where
  "jabs NaN = NaN"
| "jabs PosInf = PosInf"
| "jabs NegInf = PosInf"
| "jabs (Fin x) = Fin \<bar>x\<bar>"

text \<open>\<^verbatim>\<open>a > b\<close>: false as soon as one side is \<open>NaN\<close>.\<close>

fun jgt :: "number \<Rightarrow> number \<Rightarrow> bool" where
  "jgt NaN b = False"
| "jgt a NaN = False"
| "jgt (Fin x) (Fin y) = (x > y)"
| "jgt PosInf b = (b \<noteq> PosInf)"
| "jgt NegInf b = False"
| "jgt (Fin x) b = (b = NegInf)"

text \<open>\<^verbatim>\<open>a <= b\<close>: false as soon as one side is \<open>NaN\<close>.\<close>

fun jle :: "number \<Rightarrow> number \<Rightarrow> bool" where
  "jle NaN b = False"
| "jle a NaN = False"
| "jle (Fin x) (Fin y) = (x \<le> y)"
| "jle NegInf b = True"
| "jle PosInf b = (b = PosInf)"
| "jle (Fin x) b = (b = PosInf)"

text \<open>Truthiness of a number: \<open>0\<close> and \<open>NaN\<close> are falsy.\<close>

fun truthy :: "number \<Rightarrow> bool" where
  "truthy NaN = False"
| "truthy (Fin x) = (x \<noteq> 0)"
| "truthy a = True"

text \<open>\<^verbatim>\<open>a || b\<close> on numbers.\<close>

definition jor :: "number \<Rightarrow> number \<Rightarrow> number" where
  "jor a b = (if truthy a then a else b)"

section \<open>Strings of digits\<close>

text \<open>
  Strings are the bytes of the source text (UTF-8): the em dash of two messages and the
  infinity sign of the locale are three bytes each.
\<close>

definition emDash :: string where
  "emDash = [CHR 0xE2, CHR 0x80, CHR 0x94]"

definition infinitySign :: string where
  "infinitySign = [CHR 0xE2, CHR 0x88, CHR 0x9E]"

definition digitChar :: "nat \<Rightarrow> char" where
  "digitChar d = ''0123456789'' ! (d mod 10)"

fun decimal :: "nat \<Rightarrow> string" where
  "decimal n = (if n < 10 then [digitChar n] else decimal (n div 10) @ [digitChar (n mod 10)])"

declare decimal.simps [simp del]

text \<open>The last \<open>k\<close> decimal digits of \<open>n\<close>, padded with zeros on the left.\<close>

fun lastDigits :: "nat \<Rightarrow> nat \<Rightarrow> string" where
  "lastDigits 0 n = []"
| "lastDigits (Suc k) n = lastDigits k (n div 10) @ [digitChar (n mod 10)]"

text \<open>Commas between groups of three digits, on the reversed digit string.\<close>

fun groupRev :: "string \<Rightarrow> string" where
  "groupRev (a # b # c # d # r) = a # b # c # CHR '','' # groupRev (d # r)"
| "groupRev r = r"

definition grouped :: "nat \<Rightarrow> string" where
  "grouped n = rev (groupRev (rev (decimal n)))"

text \<open>The integer nearest to \<open>x * 10^f\<close> for \<open>x \<ge> 0\<close>, the larger one on a tie.\<close>

definition scaled :: "nat \<Rightarrow> rat \<Rightarrow> nat" where
  "scaled f x = nat \<lfloor>x * 10 ^ f + 1 / 2\<rfloor>"

text \<open>
  \<^verbatim>\<open>Number.prototype.toFixed(f)\<close>.  From \<open>10^21\<close> on ECMAScript prints the shortest digits
  that identify the double, in exponent notation; exact rationals have no such digits, so
  the positional digits are kept there.
\<close>

fun toFixed :: "nat \<Rightarrow> number \<Rightarrow> string" where
  "toFixed f NaN = ''NaN''"
| "toFixed f PosInf = ''Infinity''"
| "toFixed f NegInf = ''-Infinity''"
| "toFixed f (Fin x) =
     (let n = scaled f \<bar>x\<bar>
      in (if x < 0 then ''-'' else '''') @ decimal (n div 10 ^ f) @
         (if f = 0 then '''' else ''.'' @ lastDigits f n))"

text \<open>
  \<^verbatim>\<open>toLocaleString(undefined, { minimumFractionDigits: 2 })\<close> in the \<^verbatim>\<open>en-US\<close> locale:
  groups of three digits, at least two and at most three fraction digits, ties rounded
  away from zero.
\<close>

fun toLocaleString :: "number \<Rightarrow> string" where
  "toLocaleString NaN = ''NaN''"
| "toLocaleString PosInf = infinitySign"
| "toLocaleString NegInf = ''-'' @ infinitySign"
| "toLocaleString (Fin x) =
     (let n = scaled 3 \<bar>x\<bar>
      in (if x < 0 then ''-'' else '''') @ grouped (n div 1000) @ ''.'' @
         (if n mod 10 = 0 then lastDigits 2 (n div 10) else lastDigits 3 n))"

section \<open>\<^verbatim>\<open>parseFloat\<close>\<close>

text \<open>
  \<^verbatim>\<open>parseFloat\<close> skips leading white space (here the white space of ASCII), reads the
  longest prefix that is a signed decimal literal or \<^verbatim>\<open>Infinity\<close>, and returns \<open>NaN\<close> when
  there is no such prefix.
\<close>

definition isWhite :: "char \<Rightarrow> bool" where
  "isWhite c = (c = CHR '' '' \<or> c = CHR 0x09 \<or> c = CHR 0x0A \<or> c = CHR 0x0B \<or> c = CHR 0x0C \<or> c = CHR 0x0D)"

definition isDigit :: "char \<Rightarrow> bool" where
  "isDigit c = (c \<in> set ''0123456789'')"

definition digitsVal :: "string \<Rightarrow> nat" where
  "digitsVal ds = foldl (\<lambda>a c. 10 * a + (of_char c - (48::nat))) 0 ds"

text \<open>The exponent part \<^verbatim>\<open>e\<close>, sign, digits at the head of a string; \<open>0\<close> when there is none.\<close>

definition exponentPart :: "string \<Rightarrow> int" where
  "exponentPart r =
     (case r of
        [] \<Rightarrow> 0
      | c # t \<Rightarrow>
          if c = CHR ''e'' \<or> c = CHR ''E'' then
            (let neg = (t \<noteq> [] \<and> hd t = CHR ''-'');
                 t' = (if t \<noteq> [] \<and> (hd t = CHR ''-'' \<or> hd t = CHR ''+'') then tl t else t);
                 ds = takeWhile isDigit t'
             in if ds = [] then 0 else if neg then - int (digitsVal ds) else int (digitsVal ds))
          else 0)"

text \<open>The longest prefix that is an unsigned decimal literal, or \<^verbatim>\<open>Infinity\<close>.\<close>

definition parseUnsigned :: "string \<Rightarrow> number" where
  "parseUnsigned s =
     (if take 8 s = ''Infinity'' then PosInf
      else
        let ip = takeWhile isDigit s;
            r1 = dropWhile isDigit s;
            dot = (r1 \<noteq> [] \<and> hd r1 = CHR ''.'');
            fp = (if dot then takeWhile isDigit (tl r1) else []);
            r2 = (if dot then dropWhile isDigit (tl r1) else r1)
        in if ip = [] \<and> fp = [] then NaN
           else
             let m = of_nat (digitsVal (ip @ fp)) / 10 ^ length fp;
                 e = exponentPart r2
             in Fin (if 0 \<le> e then m * 10 ^ nat e else m / 10 ^ nat (- e)))"

definition parseFloat :: "string \<Rightarrow> number" where
  "parseFloat s =
     (let t = dropWhile isWhite s
      in case t of
           [] \<Rightarrow> NaN
         | c # r \<Rightarrow>
             if c = CHR ''-'' then jneg (parseUnsigned r)
             else if c = CHR ''+'' then parseUnsigned r
             else parseUnsigned t)"

section \<open>The pre-trade check engine\<close>

datatype Severity = hard | soft | warning | pass

record CheckResult =
  name :: string
  severity :: Severity
  message :: string

datatype Side = Buy | Sell

record Security =
  symbol :: string
  name :: string
  type :: string
  price :: number

record PreTradeChecksProps =
  security :: "Security option"
  side :: Side
  orderAmount :: number
  limitPrice :: string
  orderType :: string
  investmentAccount :: string
  cashAccount :: string

text \<open>
  The tables the engine reads are constants of its module.  They are passed to the model
  as one record, so that a statement can speak about any reference data; \<open>mockData\<close>
  below holds the values of the source.  An object literal is a finite map: properties
  inherited from \<^verbatim>\<open>Object.prototype\<close> are not represented.
\<close>

record ReferenceData =
  MOCK_PORTFOLIO :: "string \<rightharpoonup> number"
  MOCK_CASH :: "string \<rightharpoonup> number"
  MOCK_HOLDINGS :: "string \<rightharpoonup> (string \<rightharpoonup> number)"
  RESTRICTED_SECURITIES :: "string list"
  RESIDENCY_RESTRICTED :: "string \<rightharpoonup> string"

definition mockData :: ReferenceData where
  "mockData =
     \<lparr>MOCK_PORTFOLIO = map_of
        [(''INV-001 Main'', Fin 500000),
         (''INV-002 Growth'', Fin 250000),
         (''INV-003 Retirement'', Fin 800000)],
      MOCK_CASH = map_of
        [(''CASH-001 USD'', Fin 75000),
         (''CASH-002 EUR'', Fin 42000)],
      MOCK_HOLDINGS = map_of
        [(''INV-001 Main'', map_of [(''AAPL'', Fin 80000), (''MSFT'', Fin 120000)]),
         (''INV-002 Growth'', map_of [(''TSLA'', Fin 60000), (''GOOGL'', Fin 40000)]),
         (''INV-003 Retirement'', map_of [(''US10Y'', Fin 200000), (''VFIAX'', Fin 300000)])],
      RESTRICTED_SECURITIES = [''MUNI7Y''],
      RESIDENCY_RESTRICTED = map_of
        [(''SWPPX'', ''Security not available for non-US resident clients'')]\<rparr>"

text \<open>\<^verbatim>\<open>table[key] ?? 0\<close>\<close>

definition lookupOr0 :: "(string \<rightharpoonup> number) \<Rightarrow> string \<Rightarrow> number" where
  "lookupOr0 table key = (case table key of None \<Rightarrow> Fin 0 | Some v \<Rightarrow> v)"

text \<open>\<^verbatim>\<open>MOCK_HOLDINGS[account]?.[symbol] ?? 0\<close>\<close>

definition holdingOr0 :: "ReferenceData \<Rightarrow> string \<Rightarrow> string \<Rightarrow> number" where
  "holdingOr0 ref account sy =
     (case MOCK_HOLDINGS ref account of None \<Rightarrow> Fin 0 | Some held \<Rightarrow> lookupOr0 held sy)"

text \<open>1. Restricted security (hard).\<close>

definition restrictedCheck :: "ReferenceData \<Rightarrow> Security \<Rightarrow> CheckResult list" where
  "restrictedCheck ref sec =
     (if symbol sec \<in> set (RESTRICTED_SECURITIES ref) then
        [\<lparr>CheckResult.name = ''Restricted Security'', severity = hard,
          message = symbol sec @ '' is on the restricted securities list and cannot be traded.''\<rparr>]
      else [])"

text \<open>2. Client residency (hard): the table entry must be a non-empty string.\<close>

definition residencyCheck :: "ReferenceData \<Rightarrow> Security \<Rightarrow> CheckResult list" where
  "residencyCheck ref sec =
     (case RESIDENCY_RESTRICTED ref (symbol sec) of
        None \<Rightarrow> []
      | Some reason \<Rightarrow>
          if reason \<noteq> [] then
            [\<lparr>CheckResult.name = ''Client Residency'', severity = hard, message = reason\<rparr>]
          else [])"

text \<open>3. Cash sufficiency (hard for a buy).\<close>

definition cashCheck :: "ReferenceData \<Rightarrow> PreTradeChecksProps \<Rightarrow> CheckResult list" where
  "cashCheck ref props =
     (if side props = Buy \<and> cashAccount props \<noteq> [] then
        (let available = lookupOr0 (MOCK_CASH ref) (cashAccount props)
         in if jgt (orderAmount props) available then
              [\<lparr>CheckResult.name = ''Cash Sufficiency'', severity = hard,
                message = ''Insufficient funds. Required: $'' @ toLocaleString (orderAmount props) @
                  '' '' @ emDash @ '' Available: $'' @ toLocaleString available\<rparr>]
            else
              [\<lparr>CheckResult.name = ''Cash Sufficiency'', severity = pass,
                message = ''Sufficient funds available ($'' @ toLocaleString available @ '')''\<rparr>])
      else [])"

text \<open>4. Concentration limit (hard above 20% of the portfolio).\<close>

definition newExposure :: "ReferenceData \<Rightarrow> PreTradeChecksProps \<Rightarrow> Security \<Rightarrow> number" where
  "newExposure ref props sec =
     (let currentHolding = holdingOr0 ref (investmentAccount props) (symbol sec)
      in if side props = Buy then jadd currentHolding (orderAmount props)
         else jsub currentHolding (orderAmount props))"

definition concentration :: "ReferenceData \<Rightarrow> PreTradeChecksProps \<Rightarrow> Security \<Rightarrow> number" where
  "concentration ref props sec =
     (let portfolioValue = lookupOr0 (MOCK_PORTFOLIO ref) (investmentAccount props)
      in if jgt portfolioValue (Fin 0) then
           jmul (jdiv (newExposure ref props sec) portfolioValue) (Fin 100)
         else Fin 0)"

definition concentrationCheck ::
  "ReferenceData \<Rightarrow> PreTradeChecksProps \<Rightarrow> Security \<Rightarrow> CheckResult list" where
  "concentrationCheck ref props sec =
     (if investmentAccount props \<noteq> [] then
        (if jgt (concentration ref props sec) (Fin 20) then
           [\<lparr>CheckResult.name = ''Concentration Limit'', severity = hard,
             message = ''Post-trade concentration of '' @ toFixed 1 (concentration ref props sec) @
               ''% exceeds 20% limit for '' @ symbol sec @ ''.''\<rparr>]
         else
           [\<lparr>CheckResult.name = ''Concentration Limit'', severity = pass,
             message = ''Post-trade concentration: '' @ toFixed 1 (concentration ref props sec) @
               ''% (limit: 20%)''\<rparr>])
      else [])"

text \<open>5. Order size (soft above 100,000).\<close>

definition orderSizeCheck :: "PreTradeChecksProps \<Rightarrow> CheckResult list" where
  "orderSizeCheck props =
     (if jgt (orderAmount props) (Fin 100000) then
        [\<lparr>CheckResult.name = ''Order Size'', severity = soft,
          message = ''Order value $'' @ toLocaleString (orderAmount props) @
            '' exceeds $100,000 threshold '' @ emDash @ '' requires approval.''\<rparr>]
      else
        [\<lparr>CheckResult.name = ''Order Size'', severity = pass,
          message = ''Order value within threshold''\<rparr>])"

text \<open>6. Price deviation (warning when the limit price is more than 3% from the market).\<close>

definition deviation :: "PreTradeChecksProps \<Rightarrow> Security \<Rightarrow> number" where
  "deviation props sec =
     (let limit = parseFloat (limitPrice props)
      in jmul (jabs (jdiv (jsub limit (price sec)) (price sec))) (Fin 100))"

definition priceDeviationCheck :: "PreTradeChecksProps \<Rightarrow> Security \<Rightarrow> CheckResult list" where
  "priceDeviationCheck props sec =
     (if orderType props = ''Limit'' \<and> limitPrice props \<noteq> [] then
        (if jgt (deviation props sec) (Fin 3) then
           [\<lparr>CheckResult.name = ''Price Deviation'', severity = warning,
             message = ''Limit price deviates '' @ toFixed 1 (deviation props sec) @
               ''% from market price ($'' @ toFixed 2 (price sec) @ '').''\<rparr>]
         else
           [\<lparr>CheckResult.name = ''Price Deviation'', severity = pass,
             message = ''Limit price within 3% of market''\<rparr>])
      else [])"

text \<open>
  \<^verbatim>\<open>runChecks\<close>: the guard clause, then the six rules in their order, each pushing at most
  one result.
\<close>

definition runChecks :: "ReferenceData \<Rightarrow> PreTradeChecksProps \<Rightarrow> CheckResult list" where
  "runChecks ref props =
     (case security props of
        None \<Rightarrow> []
      | Some sec \<Rightarrow>
          if jle (orderAmount props) (Fin 0) then []
          else restrictedCheck ref sec @ residencyCheck ref sec @ cashCheck ref props @
               concentrationCheck ref props sec @ orderSizeCheck props @
               priceDeviationCheck props sec)"

text \<open>The reduction of \<^verbatim>\<open>usePreTradeOutcome\<close>: the first severity found, in the order tested.\<close>

definition outcomeOf :: "CheckResult list \<Rightarrow> Severity" where
  "outcomeOf cs =
     (if list_ex (\<lambda>c. severity c = hard) cs then hard
      else if list_ex (\<lambda>c. severity c = soft) cs then soft
      else if list_ex (\<lambda>c. severity c = warning) cs then warning
      else pass)"

record PreTradeOutcome =
  checks :: "CheckResult list"
  outcome :: Severity

text \<open>
  \<^verbatim>\<open>usePreTradeOutcome\<close>, as one evaluation of both memoised values (a render in which
  the dependencies have changed).
\<close>

definition usePreTradeOutcome :: "ReferenceData \<Rightarrow> PreTradeChecksProps \<Rightarrow> PreTradeOutcome" where
  "usePreTradeOutcome ref props =
     (let cs = runChecks ref props in \<lparr>checks = cs, outcome = outcomeOf cs\<rparr>)"

section \<open>The order dialog\<close>

datatype OrderBy = Amount | Units

text \<open>The state variables of \<^verbatim>\<open>CreateOrderDialog\<close> that its derived values read.\<close>

record CreateOrderDialogState =
  selectedSecurity :: "Security option"
  side :: Side
  orderType :: string
  orderBy :: OrderBy
  inputValue :: string
  limitPrice :: string
  investmentAccount :: string
  cashAccount :: string

definition effectivePrice :: "CreateOrderDialogState \<Rightarrow> number" where
  "effectivePrice st =
     (if CreateOrderDialogState.orderType st = ''Limit'' \<and> CreateOrderDialogState.limitPrice st \<noteq> []
      then parseFloat (CreateOrderDialogState.limitPrice st)
      else (case selectedSecurity st of None \<Rightarrow> Fin 0 | Some sec \<Rightarrow> price sec))"

definition orderAmountOf :: "CreateOrderDialogState \<Rightarrow> number" where
  "orderAmountOf st =
     (if orderBy st = Amount then jor (parseFloat (inputValue st)) (Fin 0)
      else jmul (jor (parseFloat (inputValue st)) (Fin 0)) (effectivePrice st))"

text \<open>The argument of the call of \<^verbatim>\<open>usePreTradeOutcome\<close>.\<close>

definition dialogProps :: "CreateOrderDialogState \<Rightarrow> PreTradeChecksProps" where
  "dialogProps st =
     \<lparr>security = selectedSecurity st,
      PreTradeChecksProps.side = CreateOrderDialogState.side st,
      orderAmount = orderAmountOf st,
      PreTradeChecksProps.limitPrice = CreateOrderDialogState.limitPrice st,
      PreTradeChecksProps.orderType = CreateOrderDialogState.orderType st,
      PreTradeChecksProps.investmentAccount = CreateOrderDialogState.investmentAccount st,
      PreTradeChecksProps.cashAccount = CreateOrderDialogState.cashAccount st\<rparr>"

text \<open>The truth value of the chain of \<^verbatim>\<open>&&\<close>.\<close>

definition formComplete :: "CreateOrderDialogState \<Rightarrow> bool" where
  "formComplete st =
     (selectedSecurity st \<noteq> None \<and> inputValue st \<noteq> [] \<and>
      jgt (parseFloat (inputValue st)) (Fin 0) \<and>
      CreateOrderDialogState.investmentAccount st \<noteq> [] \<and>
      CreateOrderDialogState.cashAccount st \<noteq> [])"

definition canSubmit :: "ReferenceData \<Rightarrow> CreateOrderDialogState \<Rightarrow> bool" where
  "canSubmit ref st =
     (formComplete st \<and> outcome (usePreTradeOutcome ref (dialogProps st)) \<noteq> hard)"

text \<open>The \<^verbatim>\<open>disabled\<close> attribute of the submit button.\<close>

definition submitDisabled :: "ReferenceData \<Rightarrow> CreateOrderDialogState \<Rightarrow> bool" where
  "submitDisabled ref st = (\<not> canSubmit ref st)"

section \<open>Approvals\<close>

datatype WarningType = large_order | price_deviation | unusual_security

record Warning =
  type :: WarningType
  message :: string

datatype ApprovalStatus = PendingApproval | Approved | Rejected

datatype Urgency = normal | high

text \<open>
  An approval order without \<^verbatim>\<open>warnings\<close> and \<^verbatim>\<open>urgency\<close>, the argument type of
  \<^verbatim>\<open>generateWarnings\<close>; the timestamp is in milliseconds.
\<close>

record ApprovalBase =
  id' :: string
  timestamp :: int
  symbol :: string
  name :: string
  securityType :: string
  side :: Side
  orderType :: string
  tif :: string
  qty :: number
  filledQty :: number
  price :: number
  limitPrice :: "number option"
  fees :: number
  account :: string
  submittedBy :: string
  approvalStatus :: ApprovalStatus
  approvalComment :: "string option"

record ApprovalOrder = ApprovalBase +
  warnings :: "Warning list"
  urgency :: Urgency

text \<open>The relative distance of the limit price from the price.\<close>

definition relativeDeviation :: "number \<Rightarrow> number \<Rightarrow> number" where
  "relativeDeviation limit p = jdiv (jabs (jsub limit p)) p"

definition unusual :: "string list" where
  "unusual = [''CORP5Y'', ''US10Y'']"

definition generateWarnings :: "'a ApprovalBase_scheme \<Rightarrow> Warning list" where
  "generateWarnings order =
     (let totalValue = jmul (qty order) (ApprovalBase.price order)
      in (if jgt totalValue (Fin 100000) then
            [\<lparr>Warning.type = large_order,
              Warning.message = ''Order value $'' @ toLocaleString totalValue @
                '' exceeds $100,000 threshold.''\<rparr>]
          else []) @
         (case ApprovalBase.limitPrice order of
            None \<Rightarrow> []
          | Some limit \<Rightarrow>
              if truthy limit \<and>
                 jgt (relativeDeviation limit (ApprovalBase.price order)) (Fin (3 / 100))
              then
                [\<lparr>Warning.type = price_deviation,
                  Warning.message = ''Limit price deviates '' @
                    toFixed 1 (jmul (relativeDeviation limit (ApprovalBase.price order)) (Fin 100)) @
                    ''% from market price.''\<rparr>]
              else []) @
         (if ApprovalBase.symbol order \<in> set unusual then
            [\<lparr>Warning.type = unusual_security,
              Warning.message = ApprovalBase.symbol order @
                '' is a fixed-income instrument requiring additional review.''\<rparr>]
          else []))"

text \<open>
  The last step of an entry of \<^verbatim>\<open>generateMockApprovals\<close>: the base order, its warnings,
  and the urgency derived from their number.
\<close>

definition withWarnings :: "ApprovalBase \<Rightarrow> ApprovalOrder" where
  "withWarnings base =
     (let ws = generateWarnings base
      in ApprovalBase.extend base
           (ApprovalOrder.fields ws (if 2 \<le> length ws then high else normal)))"

text \<open>
  The state updates of \<^verbatim>\<open>handleApprove\<close> and \<^verbatim>\<open>handleReject\<close> on the list of orders; the
  notification they show is not part of the list.
\<close>

definition handleApprove :: "string \<Rightarrow> string \<Rightarrow> ApprovalOrder list \<Rightarrow> ApprovalOrder list" where
  "handleApprove orderId comment prev =
     map (\<lambda>ord. if id' ord = orderId then
                 ord\<lparr>approvalStatus := Approved,
                   approvalComment := Some (if comment \<noteq> [] then comment else ''Approved.'')\<rparr>
               else ord) prev"

definition handleReject :: "string \<Rightarrow> string \<Rightarrow> ApprovalOrder list \<Rightarrow> ApprovalOrder list" where
  "handleReject orderId comment prev =
     map (\<lambda>ord. if id' ord = orderId then
                 ord\<lparr>approvalStatus := Rejected, approvalComment := Some comment\<rparr>
               else ord) prev"

section \<open>Notions of the specification\<close>

text \<open>
  The specification orders the severities \<open>hard > soft > warning > pass\<close> and calls the
  outcome the maximum severity of the results, \<open>pass\<close> for no result.  \<open>maxSeverity\<close>
  follows these words; \<open>outcomeOf\<close> above follows the source.
\<close>

fun rank :: "Severity \<Rightarrow> nat" where
  "rank hard = 3"
| "rank soft = 2"
| "rank warning = 1"
| "rank pass = 0"

definition maxSeverity :: "CheckResult list \<Rightarrow> Severity" where
  "maxSeverity cs =
     foldr (\<lambda>c acc. if rank acc < rank (severity c) then severity c else acc) cs pass"

text \<open>The results of the rule called \<open>n\<close>, in their order.\<close>

definition resultsNamed :: "string \<Rightarrow> CheckResult list \<Rightarrow> CheckResult list" where
  "resultsNamed n cs = filter (\<lambda>c. CheckResult.name c = n) cs"

text \<open>The guard clause of \<^verbatim>\<open>runChecks\<close> does not return early.\<close>

definition passesGuard :: "PreTradeChecksProps \<Rightarrow> bool" where
  "passesGuard props = (security props \<noteq> None \<and> \<not> jle (orderAmount props) (Fin 0))"


section \<open>Example inputs\<close>

definition AAPL :: Security where
  "AAPL = \<lparr>Security.symbol = ''AAPL'', Security.name = ''Apple Inc.'',
            Security.type = ''Equity'', Security.price = Fin (18984 / 100)\<rparr>"

definition MUNI7Y :: Security where
  "MUNI7Y = \<lparr>Security.symbol = ''MUNI7Y'', Security.name = ''Municipal Bond 7Y'',
              Security.type = ''Bond'', Security.price = Fin (988 / 10)\<rparr>"

text \<open>A market order with both accounts chosen.\<close>

definition marketOrder :: "Security \<Rightarrow> Side \<Rightarrow> number \<Rightarrow> PreTradeChecksProps" where
  "marketOrder sec sd amount =
     \<lparr>security = Some sec, PreTradeChecksProps.side = sd, orderAmount = amount,
      PreTradeChecksProps.limitPrice = [], PreTradeChecksProps.orderType = ''Market'',
      PreTradeChecksProps.investmentAccount = ''INV-001 Main'',
      PreTradeChecksProps.cashAccount = ''CASH-001 USD''\<rparr>"

text \<open>A limit order of 1000 with no account chosen.\<close>

definition limitOrder :: "Security \<Rightarrow> string \<Rightarrow> PreTradeChecksProps" where
  "limitOrder sec limit =
     \<lparr>security = Some sec, PreTradeChecksProps.side = Buy, orderAmount = Fin 1000,
      PreTradeChecksProps.limitPrice = limit, PreTradeChecksProps.orderType = ''Limit'',
      PreTradeChecksProps.investmentAccount = [],
      PreTradeChecksProps.cashAccount = []\<rparr>"

text \<open>A dialog with a security, both accounts and an entered amount.\<close>

definition filledDialog :: "Security \<Rightarrow> string \<Rightarrow> CreateOrderDialogState" where
  "filledDialog sec entered =
     \<lparr>selectedSecurity = Some sec, CreateOrderDialogState.side = Buy,
      CreateOrderDialogState.orderType = ''Market'', orderBy = Amount, inputValue = entered,
      CreateOrderDialogState.limitPrice = [],
      CreateOrderDialogState.investmentAccount = ''INV-001 Main'',
      CreateOrderDialogState.cashAccount = ''CASH-001 USD''\<rparr>"

text \<open>An order awaiting approval, before its warnings are derived.\<close>

definition approvalBase ::
  "string \<Rightarrow> string \<Rightarrow> number \<Rightarrow> number \<Rightarrow> number option \<Rightarrow> ApprovalBase" where
  "approvalBase oid sy q p limit =
     \<lparr>id' = oid, timestamp = 0, ApprovalBase.symbol = sy, ApprovalBase.name = sy,
      securityType = ''Equity'', ApprovalBase.side = Buy, ApprovalBase.orderType = ''Limit'',
      tif = ''Day'', qty = q, filledQty = Fin 0, ApprovalBase.price = p,
      ApprovalBase.limitPrice = limit, fees = jmul (jmul q p) (Fin (1 / 1000)),
      account = ''INV-001 Main'', submittedBy = ''J. Smith'',
      approvalStatus = PendingApproval, approvalComment = None\<rparr>"

definition pendingOrders :: "ApprovalOrder list" where
  "pendingOrders =
     [withWarnings (approvalBase ''APR-000'' ''AAPL'' (Fin 100) (Fin 100) None),
      withWarnings (approvalBase ''APR-001'' ''US10Y'' (Fin 2000) (Fin 100) (Some (Fin 95))),
      withWarnings (approvalBase ''APR-002'' ''CORP5Y'' (Fin 10) (Fin 100) (Some (Fin 102)))]"

text \<open>
  Two orders agree on every field that the approval handlers leave alone, that is on
  every field but \<^verbatim>\<open>approvalStatus\<close> and \<^verbatim>\<open>approvalComment\<close>.
\<close>

definition sameOtherFields :: "ApprovalOrder \<Rightarrow> ApprovalOrder \<Rightarrow> bool" where
  "sameOtherFields a b =
     (id' a = id' b \<and> timestamp a = timestamp b \<and>
      ApprovalBase.symbol a = ApprovalBase.symbol b \<and> ApprovalBase.name a = ApprovalBase.name b \<and>
      securityType a = securityType b \<and> ApprovalBase.side a = ApprovalBase.side b \<and>
      ApprovalBase.orderType a = ApprovalBase.orderType b \<and> tif a = tif b \<and> qty a = qty b \<and>
      filledQty a = filledQty b \<and> ApprovalBase.price a = ApprovalBase.price b \<and>
      ApprovalBase.limitPrice a = ApprovalBase.limitPrice b \<and> fees a = fees b \<and>
      account a = account b \<and> submittedBy a = submittedBy b \<and>
      warnings a = warnings b \<and> urgency a = urgency b)"

section \<open>Evaluation of the number formats\<close>

lemmas rule_defs =
  restrictedCheck_def residencyCheck_def cashCheck_def concentrationCheck_def
  orderSizeCheck_def priceDeviationCheck_def

lemma floor_rat_numeral_div: "\<lfloor>(numeral a / numeral b :: rat)\<rfloor> = numeral a div numeral b"
  using floor_divide_of_int_eq [of "numeral a" "numeral b", where ?'a = rat] by simp

lemma decimal_small: "n < 10 \<Longrightarrow> decimal n = [digitChar n]"
  by (simp add: decimal.simps)

lemma decimal_big: "10 \<le> n \<Longrightarrow> decimal n = decimal (n div 10) @ [digitChar (n mod 10)]"
  by (subst decimal.simps) simp

lemma lastDigits_1: "lastDigits 1 n = [digitChar (n mod 10)]"
  by simp

lemma lastDigits_2: "lastDigits 2 n = [digitChar (n div 10 mod 10), digitChar (n mod 10)]"
  by (simp add: numeral_2_eq_2)

lemma lastDigits_3:
  "lastDigits 3 n =
     [digitChar (n div 10 div 10 mod 10), digitChar (n div 10 mod 10), digitChar (n mod 10)]"
  by (simp add: numeral_3_eq_3)

lemmas format_simps =
  scaled_def grouped_def digitChar_def decimal_small decimal_big floor_rat_numeral_div
  lastDigits_1 lastDigits_2 lastDigits_3 emDash_def

section \<open>The outcome is the maximum severity\<close>

lemma outcomeOf_Nil: "outcomeOf [] = pass"
  by (simp add: outcomeOf_def)

lemma outcomeOf_Cons:
  "outcomeOf (c # cs) =
     (if rank (outcomeOf cs) < rank (severity c) then severity c else outcomeOf cs)"
  by (cases "severity c") (simp_all add: outcomeOf_def)

lemma outcomeOf_maxSeverity: "outcomeOf cs = maxSeverity cs"
  by (induction cs) (simp_all add: outcomeOf_Nil outcomeOf_Cons maxSeverity_def)

lemma outcomeOf_upper: "c \<in> set cs \<Longrightarrow> rank (severity c) \<le> rank (outcomeOf cs)"
  by (induction cs) (auto simp: outcomeOf_Cons)

lemma outcomeOf_attained: "cs \<noteq> [] \<Longrightarrow> \<exists>c\<in>set cs. severity c = outcomeOf cs"
proof (induction cs)
  case Nil
  then show ?case by simp
next
  case (Cons c cs)
  show ?case
  proof (cases "cs = []")
    case True
    then show ?thesis by (cases "severity c") (simp_all add: outcomeOf_def)
  next
    case False
    with Cons.IH obtain d where "d \<in> set cs" "severity d = outcomeOf cs" by blast
    then show ?thesis by (auto simp: outcomeOf_Cons)
  qed
qed

lemma usePreTradeOutcome_sel:
  "checks (usePreTradeOutcome ref props) = runChecks ref props"
  "outcome (usePreTradeOutcome ref props) = outcomeOf (runChecks ref props)"
  by (simp_all add: usePreTradeOutcome_def Let_def)

lemma marketOrder_MUNI7Y_severities:
  "map severity (runChecks mockData (marketOrder MUNI7Y Buy (Fin 5000))) =
     [hard, pass, pass, pass]"
  by (simp add: runChecks_def marketOrder_def MUNI7Y_def mockData_def rule_defs lookupOr0_def
      concentration_def newExposure_def holdingOr0_def)

text \<open>
  Claim C1.  For every order context, the outcome returned by \<^verbatim>\<open>usePreTradeOutcome\<close> is
  the maximum severity occurring in the returned list of results under
  \<open>hard > soft > warning > pass\<close>: it is an upper bound of the severities of the list and,
  for a list that is not empty, the severity of one of its results; any hard result makes
  it \<open>hard\<close>, otherwise any soft result makes it \<open>soft\<close>, otherwise any warning makes it
  \<open>warning\<close>, and for the empty list it is \<open>pass\<close>.
\<close>

theorem outcome_is_max_severity:
  assumes "r = usePreTradeOutcome ref props"
  shows "outcome r = maxSeverity (checks r) \<and>
         (\<forall>c\<in>set (checks r). rank (severity c) \<le> rank (outcome r)) \<and>
         (checks r \<noteq> [] \<longrightarrow> (\<exists>c\<in>set (checks r). severity c = outcome r)) \<and>
         (checks r = [] \<longrightarrow> outcome r = pass) \<and>
         ((\<exists>c\<in>set (checks r). severity c = hard) \<longrightarrow> outcome r = hard) \<and>
         ((\<forall>c\<in>set (checks r). severity c \<noteq> hard) \<and> (\<exists>c\<in>set (checks r). severity c = soft)
            \<longrightarrow> outcome r = soft) \<and>
         ((\<forall>c\<in>set (checks r). severity c \<noteq> hard \<and> severity c \<noteq> soft) \<and>
          (\<exists>c\<in>set (checks r). severity c = warning) \<longrightarrow> outcome r = warning) \<and>
         ((\<forall>c\<in>set (checks r). severity c = pass) \<longrightarrow> outcome r = pass)"
proof -
  have out: "outcome r = outcomeOf (checks r)"
    using assms by (simp add: usePreTradeOutcome_sel)
  have 1: "outcome r = maxSeverity (checks r)"
    by (simp add: out outcomeOf_maxSeverity)
  have 2: "\<forall>c\<in>set (checks r). rank (severity c) \<le> rank (outcome r)"
    by (simp add: out outcomeOf_upper)
  have 3: "checks r \<noteq> [] \<longrightarrow> (\<exists>c\<in>set (checks r). severity c = outcome r)"
    by (simp add: out outcomeOf_attained)
  have 4: "checks r = [] \<longrightarrow> outcome r = pass"
    by (simp add: out outcomeOf_Nil)
  have 5: "(\<exists>c\<in>set (checks r). severity c = hard) \<longrightarrow> outcome r = hard"
    by (auto simp: out outcomeOf_def list_ex_iff)
  have 6: "(\<forall>c\<in>set (checks r). severity c \<noteq> hard) \<and> (\<exists>c\<in>set (checks r). severity c = soft)
            \<longrightarrow> outcome r = soft"
    by (auto simp: out outcomeOf_def list_ex_iff)
  have 7: "(\<forall>c\<in>set (checks r). severity c \<noteq> hard \<and> severity c \<noteq> soft) \<and>
          (\<exists>c\<in>set (checks r). severity c = warning) \<longrightarrow> outcome r = warning"
    by (auto simp: out outcomeOf_def list_ex_iff)
  have 8: "(\<forall>c\<in>set (checks r). severity c = pass) \<longrightarrow> outcome r = pass"
    by (auto simp: out outcomeOf_def list_ex_iff)
  from 1 2 3 4 5 6 7 8 show ?thesis by blast
qed

theorem outcome_is_max_severity_witness:
  "outcome (usePreTradeOutcome mockData (marketOrder MUNI7Y Buy (Fin 5000))) =
     maxSeverity (checks (usePreTradeOutcome mockData (marketOrder MUNI7Y Buy (Fin 5000)))) \<and>
   map severity (checks (usePreTradeOutcome mockData (marketOrder MUNI7Y Buy (Fin 5000)))) =
     [hard, pass, pass, pass] \<and>
   outcome (usePreTradeOutcome mockData (marketOrder MUNI7Y Buy (Fin 5000))) = hard"
proof -
  let ?r = "usePreTradeOutcome mockData (marketOrder MUNI7Y Buy (Fin 5000))"
  have sev: "map severity (checks ?r) = [hard, pass, pass, pass]"
    by (simp add: usePreTradeOutcome_sel marketOrder_MUNI7Y_severities)
  then have "hard \<in> severity ` set (checks ?r)"
    by (simp flip: set_map)
  then have "\<exists>c\<in>set (checks ?r). severity c = hard"
    by (metis imageE)
  with sev outcome_is_max_severity [OF refl, of mockData "marketOrder MUNI7Y Buy (Fin 5000)"]
  show ?thesis by blast
qed

section \<open>The guard clause\<close>

text \<open>
  Claim C2.  For every order context in which the security is absent or the order amount
  is at most zero, the engine returns the empty list of results, whatever the other fields
  of the order and the reference data are.
\<close>

theorem guard_returns_empty:
  "security props = None \<or> jle (orderAmount props) (Fin 0) \<Longrightarrow>
     runChecks ref props = [] \<and> checks (usePreTradeOutcome ref props) = []"
  by (auto simp: runChecks_def usePreTradeOutcome_def Let_def split: option.splits)

theorem guard_returns_empty_witness:
  "runChecks mockData ((marketOrder AAPL Buy (Fin 5000))\<lparr>security := None\<rparr>) = [] \<and>
   runChecks mockData (marketOrder AAPL Buy (Fin 0)) = [] \<and>
   runChecks mockData (marketOrder MUNI7Y Sell (Fin (- 250))) = [] \<and>
   runChecks mockData (marketOrder MUNI7Y Sell NegInf) = []"
  using guard_returns_empty [of "(marketOrder AAPL Buy (Fin 5000))\<lparr>security := None\<rparr>" mockData]
    guard_returns_empty [of "marketOrder AAPL Buy (Fin 0)" mockData]
    guard_returns_empty [of "marketOrder MUNI7Y Sell (Fin (- 250))" mockData]
    guard_returns_empty [of "marketOrder MUNI7Y Sell NegInf" mockData]
  by (simp add: marketOrder_def)

section \<open>The results of one rule\<close>

lemma resultsNamed_append:
  "resultsNamed n (xs @ ys) = resultsNamed n xs @ resultsNamed n ys"
  by (simp add: resultsNamed_def)

lemma resultsNamed_restricted:
  "resultsNamed n (restrictedCheck ref sec) =
     (if n = ''Restricted Security'' then restrictedCheck ref sec else [])"
  by (auto simp: resultsNamed_def restrictedCheck_def)

lemma resultsNamed_residency:
  "resultsNamed n (residencyCheck ref sec) =
     (if n = ''Client Residency'' then residencyCheck ref sec else [])"
  by (auto simp: resultsNamed_def residencyCheck_def split: option.splits)

lemma resultsNamed_cash:
  "resultsNamed n (cashCheck ref props) =
     (if n = ''Cash Sufficiency'' then cashCheck ref props else [])"
  by (auto simp: resultsNamed_def cashCheck_def Let_def)

lemma resultsNamed_concentration:
  "resultsNamed n (concentrationCheck ref props sec) =
     (if n = ''Concentration Limit'' then concentrationCheck ref props sec else [])"
  by (auto simp: resultsNamed_def concentrationCheck_def)

lemma resultsNamed_orderSize:
  "resultsNamed n (orderSizeCheck props) =
     (if n = ''Order Size'' then orderSizeCheck props else [])"
  by (auto simp: resultsNamed_def orderSizeCheck_def)

lemma resultsNamed_priceDeviation:
  "resultsNamed n (priceDeviationCheck props sec) =
     (if n = ''Price Deviation'' then priceDeviationCheck props sec else [])"
  by (auto simp: resultsNamed_def priceDeviationCheck_def)

lemmas resultsNamed_rules =
  resultsNamed_append resultsNamed_restricted resultsNamed_residency resultsNamed_cash
  resultsNamed_concentration resultsNamed_orderSize resultsNamed_priceDeviation

lemma runChecks_passesGuard:
  assumes "security props = Some sec" and "\<not> jle (orderAmount props) (Fin 0)"
  shows "runChecks ref props =
           restrictedCheck ref sec @ residencyCheck ref sec @ cashCheck ref props @
           concentrationCheck ref props sec @ orderSizeCheck props @
           priceDeviationCheck props sec"
  using assms by (simp add: runChecks_def)

lemma runChecks_fails_guard:
  "\<not> passesGuard props \<Longrightarrow> runChecks ref props = []"
  by (auto simp: passesGuard_def runChecks_def split: option.splits)

lemma restricted_of_runChecks:
  assumes "security props = Some sec" and "\<not> jle (orderAmount props) (Fin 0)"
  shows "resultsNamed ''Restricted Security'' (runChecks ref props) = restrictedCheck ref sec"
  by (simp add: runChecks_passesGuard [OF assms] resultsNamed_rules)



lemma orderSize_of_runChecks:
  assumes "security props = Some sec" and "\<not> jle (orderAmount props) (Fin 0)"
  shows "resultsNamed ''Order Size'' (runChecks ref props) = orderSizeCheck props"
  by (simp add: runChecks_passesGuard [OF assms] resultsNamed_rules)

lemma priceDeviation_of_runChecks:
  assumes "security props = Some sec" and "\<not> jle (orderAmount props) (Fin 0)"
  shows "resultsNamed ''Price Deviation'' (runChecks ref props) = priceDeviationCheck props sec"
  by (simp add: runChecks_passesGuard [OF assms] resultsNamed_rules)

lemma resultsNamed_empty_iff:
  "resultsNamed n cs = [] \<longleftrightarrow> (\<forall>c\<in>set cs. CheckResult.name c \<noteq> n)"
  by (simp add: resultsNamed_def filter_empty_conv)

lemma resultsNamed_member:
  "c \<in> set (resultsNamed n cs) \<longleftrightarrow> c \<in> set cs \<and> CheckResult.name c = n"
  by (auto simp: resultsNamed_def)

section \<open>Restricted securities\<close>

text \<open>
  Claim C4.  For every order context that passes the guard clause and whose security
  symbol is a member of the restricted list, the output contains a hard result named
  \<open>Restricted Security\<close> with the message of the source, and it is the only result of that
  name; this does not depend on the side, the amount, the limit price, the order type or
  the accounts: two contexts with the same security that pass the guard have the same
  results of that name.  For every symbol that is not in the list, no result of that name
  appears in the output, not even a pass result.
\<close>

theorem restricted_security_rule:
  assumes "security props = Some sec"
  shows "(\<not> jle (orderAmount props) (Fin 0) \<and>
            Security.symbol sec \<in> set (RESTRICTED_SECURITIES ref) \<longrightarrow>
            \<lparr>CheckResult.name = ''Restricted Security'', severity = hard,
              CheckResult.message = Security.symbol sec @
                '' is on the restricted securities list and cannot be traded.''\<rparr>
              \<in> set (runChecks ref props) \<and>
            resultsNamed ''Restricted Security'' (runChecks ref props) =
              [\<lparr>CheckResult.name = ''Restricted Security'', severity = hard,
                CheckResult.message = Security.symbol sec @
                  '' is on the restricted securities list and cannot be traded.''\<rparr>]) \<and>
         (Security.symbol sec \<notin> set (RESTRICTED_SECURITIES ref) \<longrightarrow>
            (\<forall>c\<in>set (runChecks ref props). CheckResult.name c \<noteq> ''Restricted Security'')) \<and>
         (\<not> jle (orderAmount props) (Fin 0) \<and> security props' = Some sec \<and>
            \<not> jle (orderAmount props') (Fin 0) \<longrightarrow>
            resultsNamed ''Restricted Security'' (runChecks ref props') =
            resultsNamed ''Restricted Security'' (runChecks ref props))"
proof (intro conjI impI)
  assume a: "\<not> jle (orderAmount props) (Fin 0) \<and>
    Security.symbol sec \<in> set (RESTRICTED_SECURITIES ref)"
  then have named: "resultsNamed ''Restricted Security'' (runChecks ref props) =
      [\<lparr>CheckResult.name = ''Restricted Security'', severity = hard,
        CheckResult.message = Security.symbol sec @
          '' is on the restricted securities list and cannot be traded.''\<rparr>]"
    using assms by (simp add: restricted_of_runChecks restrictedCheck_def)
  then show "resultsNamed ''Restricted Security'' (runChecks ref props) =
      [\<lparr>CheckResult.name = ''Restricted Security'', severity = hard,
        CheckResult.message = Security.symbol sec @
          '' is on the restricted securities list and cannot be traded.''\<rparr>]" .
  have "\<lparr>CheckResult.name = ''Restricted Security'', severity = hard,
          CheckResult.message = Security.symbol sec @
            '' is on the restricted securities list and cannot be traded.''\<rparr>
        \<in> set (resultsNamed ''Restricted Security'' (runChecks ref props))"
    by (simp add: named)
  then show "\<lparr>CheckResult.name = ''Restricted Security'', severity = hard,
          CheckResult.message = Security.symbol sec @
            '' is on the restricted securities list and cannot be traded.''\<rparr>
        \<in> set (runChecks ref props)"
    by (simp only: resultsNamed_member)
next
  assume b: "Security.symbol sec \<notin> set (RESTRICTED_SECURITIES ref)"
  show "\<forall>c\<in>set (runChecks ref props). CheckResult.name c \<noteq> ''Restricted Security''"
  proof (cases "jle (orderAmount props) (Fin 0)")
    case True
    then show ?thesis using assms by (simp add: runChecks_def)
  next
    case False
    with assms b have "resultsNamed ''Restricted Security'' (runChecks ref props) = []"
      by (simp add: restricted_of_runChecks restrictedCheck_def)
    then show ?thesis by (simp only: resultsNamed_empty_iff)
  qed
next
  assume c: "\<not> jle (orderAmount props) (Fin 0) \<and> security props' = Some sec \<and>
    \<not> jle (orderAmount props') (Fin 0)"
  with assms show "resultsNamed ''Restricted Security'' (runChecks ref props') =
      resultsNamed ''Restricted Security'' (runChecks ref props)"
    by (simp add: restricted_of_runChecks)
qed

theorem restricted_security_rule_witness:
  "\<lparr>CheckResult.name = ''Restricted Security'', severity = hard,
     CheckResult.message = ''MUNI7Y is on the restricted securities list and cannot be traded.''\<rparr>
     \<in> set (runChecks mockData (marketOrder MUNI7Y Buy (Fin 5000))) \<and>
   resultsNamed ''Restricted Security'' (runChecks mockData (marketOrder AAPL Buy (Fin 5000))) = [] \<and>
   resultsNamed ''Restricted Security'' (runChecks mockData (limitOrder MUNI7Y ''95'')) =
   resultsNamed ''Restricted Security'' (runChecks mockData (marketOrder MUNI7Y Sell (Fin 250000)))"
proof -
  have 1: "\<lparr>CheckResult.name = ''Restricted Security'', severity = hard,
      CheckResult.message = ''MUNI7Y is on the restricted securities list and cannot be traded.''\<rparr>
      \<in> set (runChecks mockData (marketOrder MUNI7Y Buy (Fin 5000)))"
    using restricted_security_rule
      [of "marketOrder MUNI7Y Buy (Fin 5000)" MUNI7Y mockData "marketOrder MUNI7Y Buy (Fin 5000)"]
    by (simp add: marketOrder_def MUNI7Y_def mockData_def)
  have "\<forall>c\<in>set (runChecks mockData (marketOrder AAPL Buy (Fin 5000))).
      CheckResult.name c \<noteq> ''Restricted Security''"
    using restricted_security_rule
      [of "marketOrder AAPL Buy (Fin 5000)" AAPL mockData "marketOrder AAPL Buy (Fin 5000)"]
    by (simp add: marketOrder_def AAPL_def mockData_def)
  then have 2: "resultsNamed ''Restricted Security''
      (runChecks mockData (marketOrder AAPL Buy (Fin 5000))) = []"
    by (simp only: resultsNamed_empty_iff)
  have 3: "resultsNamed ''Restricted Security'' (runChecks mockData (limitOrder MUNI7Y ''95'')) =
      resultsNamed ''Restricted Security''
        (runChecks mockData (marketOrder MUNI7Y Sell (Fin 250000)))"
    using restricted_security_rule
      [of "marketOrder MUNI7Y Sell (Fin 250000)" MUNI7Y mockData "limitOrder MUNI7Y ''95''"]
    by (simp add: marketOrder_def limitOrder_def)
  from 1 2 3 show ?thesis by (intro conjI)
qed

section \<open>Order size\<close>

text \<open>
  Claim C7.  Whenever the guard clause passes, the order size rule is evaluated and gives
  exactly one result named \<open>Order Size\<close>, with a strict inequality at the fixed threshold
  100000: an amount above 100000 gives a soft result (so does 100001), while the amount
  100000 and every smaller positive amount give a pass result.
\<close>

theorem order_size_rule:
  assumes "security props = Some sec" and "\<not> jle (orderAmount props) (Fin 0)"
  shows "resultsNamed ''Order Size'' (runChecks ref props) =
           [if jgt (orderAmount props) (Fin 100000) then
              \<lparr>CheckResult.name = ''Order Size'', severity = soft,
                CheckResult.message = ''Order value $'' @ toLocaleString (orderAmount props) @
                  '' exceeds $100,000 threshold '' @ emDash @ '' requires approval.''\<rparr>
            else
              \<lparr>CheckResult.name = ''Order Size'', severity = pass,
                CheckResult.message = ''Order value within threshold''\<rparr>] \<and>
         (orderAmount props = Fin 100001 \<longrightarrow>
            map severity (resultsNamed ''Order Size'' (runChecks ref props)) = [soft]) \<and>
         (orderAmount props = Fin 100000 \<longrightarrow>
            map severity (resultsNamed ''Order Size'' (runChecks ref props)) = [pass]) \<and>
         (\<forall>x. orderAmount props = Fin x \<and> 100000 < x \<longrightarrow>
            map severity (resultsNamed ''Order Size'' (runChecks ref props)) = [soft]) \<and>
         (\<forall>x. orderAmount props = Fin x \<and> 0 < x \<and> x \<le> 100000 \<longrightarrow>
            map severity (resultsNamed ''Order Size'' (runChecks ref props)) = [pass])"
  by (simp add: orderSize_of_runChecks [OF assms] orderSizeCheck_def)

theorem order_size_rule_witness:
  "map severity (resultsNamed ''Order Size''
     (runChecks mockData (marketOrder AAPL Buy (Fin 100001)))) = [soft] \<and>
   map severity (resultsNamed ''Order Size''
     (runChecks mockData (marketOrder AAPL Buy (Fin 100000)))) = [pass] \<and>
   map severity (resultsNamed ''Order Size''
     (runChecks mockData (marketOrder AAPL Sell (Fin (1 / 100))))) = [pass] \<and>
   resultsNamed ''Order Size'' (runChecks mockData (marketOrder AAPL Sell (Fin 250000))) =
     [\<lparr>CheckResult.name = ''Order Size'', severity = soft,
       CheckResult.message =
         ''Order value $250,000.00 exceeds $100,000 threshold '' @ emDash @
         '' requires approval.''\<rparr>]"
  using order_size_rule [of "marketOrder AAPL Buy (Fin 100001)" AAPL mockData]
    order_size_rule [of "marketOrder AAPL Buy (Fin 100000)" AAPL mockData]
    order_size_rule [of "marketOrder AAPL Sell (Fin (1 / 100))" AAPL mockData]
    order_size_rule [of "marketOrder AAPL Sell (Fin 250000)" AAPL mockData]
  by (simp add: marketOrder_def format_simps)

section \<open>Cash sufficiency\<close>









section \<open>Concentration limit\<close>







section \<open>Price deviation with a limit price that is not a number\<close>

lemma deviation_NaN:
  "parseFloat (PreTradeChecksProps.limitPrice props) = NaN \<Longrightarrow> deviation props sec = NaN"
  by (simp add: deviation_def jsub_def)

lemma parseFloat_abc: "parseFloat ''abc'' = NaN"
  by (simp add: parseFloat_def parseUnsigned_def isWhite_def isDigit_def)

text \<open>
  Claim C3, as stated, fails: a limit order whose limit price is the text \<open>abc\<close>, which
  \<^verbatim>\<open>parseFloat\<close> maps to \<open>NaN\<close>, has a pass result named \<open>Price Deviation\<close> in its output.
\<close>

theorem unparsable_limit_price_counterexample:
  "PreTradeChecksProps.orderType (limitOrder AAPL ''abc'') = ''Limit'' \<and>
   PreTradeChecksProps.limitPrice (limitOrder AAPL ''abc'') \<noteq> [] \<and>
   parseFloat (PreTradeChecksProps.limitPrice (limitOrder AAPL ''abc'')) = NaN \<and>
   runChecks mockData (limitOrder AAPL ''abc'') =
     [\<lparr>CheckResult.name = ''Order Size'', severity = pass,
       CheckResult.message = ''Order value within threshold''\<rparr>,
      \<lparr>CheckResult.name = ''Price Deviation'', severity = pass,
       CheckResult.message = ''Limit price within 3% of market''\<rparr>]"
  by (simp add: limitOrder_def parseFloat_abc runChecks_def rule_defs AAPL_def mockData_def
      deviation_def jsub_def)

text \<open>
  Claim C3, amended.  For every order context of type \<open>Limit\<close> whose limit price is not
  empty and is not parsable as a number, the price deviation rule does not flag the order:
  no result named \<open>Price Deviation\<close> has the severity warning, and the engine returns its
  list of results (none of its operations can throw).  The rule is not absent: when the
  guard clause passes, the output has exactly one result named \<open>Price Deviation\<close>, the
  pass result.
\<close>

theorem unparsable_limit_price_gives_no_warning:
  assumes "PreTradeChecksProps.orderType props = ''Limit''"
    and "PreTradeChecksProps.limitPrice props \<noteq> []"
    and "parseFloat (PreTradeChecksProps.limitPrice props) = NaN"
  shows "(\<forall>c\<in>set (runChecks ref props).
            CheckResult.name c = ''Price Deviation'' \<longrightarrow> severity c = pass) \<and>
         (passesGuard props \<longrightarrow>
            resultsNamed ''Price Deviation'' (runChecks ref props) =
              [\<lparr>CheckResult.name = ''Price Deviation'', severity = pass,
                CheckResult.message = ''Limit price within 3% of market''\<rparr>]) \<and>
         (\<not> passesGuard props \<longrightarrow> runChecks ref props = [])"
proof (intro conjI impI)
  assume g: "passesGuard props"
  then obtain sec where sec: "security props = Some sec" "\<not> jle (orderAmount props) (Fin 0)"
    by (auto simp: passesGuard_def)
  show "resultsNamed ''Price Deviation'' (runChecks ref props) =
      [\<lparr>CheckResult.name = ''Price Deviation'', severity = pass,
        CheckResult.message = ''Limit price within 3% of market''\<rparr>]"
    using assms by (simp add: priceDeviation_of_runChecks [OF sec] priceDeviationCheck_def
        deviation_NaN)
next
  assume "\<not> passesGuard props"
  then show "runChecks ref props = []" by (rule runChecks_fails_guard)
next
  show "\<forall>c\<in>set (runChecks ref props).
      CheckResult.name c = ''Price Deviation'' \<longrightarrow> severity c = pass"
  proof (cases "passesGuard props")
    case False
    then show ?thesis by (simp add: runChecks_fails_guard)
  next
    case True
    then obtain sec where sec: "security props = Some sec" "\<not> jle (orderAmount props) (Fin 0)"
      by (auto simp: passesGuard_def)
    have named: "resultsNamed ''Price Deviation'' (runChecks ref props) =
        [\<lparr>CheckResult.name = ''Price Deviation'', severity = pass,
          CheckResult.message = ''Limit price within 3% of market''\<rparr>]"
      using assms by (simp add: priceDeviation_of_runChecks [OF sec] priceDeviationCheck_def
          deviation_NaN)
    show ?thesis
    proof (intro ballI impI)
      fix c
      assume "c \<in> set (runChecks ref props)" and "CheckResult.name c = ''Price Deviation''"
      then have "c \<in> set (resultsNamed ''Price Deviation'' (runChecks ref props))"
        by (simp only: resultsNamed_member)
      then show "severity c = pass" by (simp add: named)
    qed
  qed
qed

theorem unparsable_limit_price_gives_no_warning_witness:
  "resultsNamed ''Price Deviation'' (runChecks mockData (limitOrder AAPL ''abc'')) =
     [\<lparr>CheckResult.name = ''Price Deviation'', severity = pass,
       CheckResult.message = ''Limit price within 3% of market''\<rparr>] \<and>
   runChecks mockData ((limitOrder AAPL ''abc'')\<lparr>orderAmount := Fin 0\<rparr>) = []"
  using unparsable_limit_price_gives_no_warning [of "limitOrder AAPL ''abc''" mockData]
    unparsable_limit_price_gives_no_warning
      [of "(limitOrder AAPL ''abc'')\<lparr>orderAmount := Fin 0\<rparr>" mockData]
  by (simp add: limitOrder_def parseFloat_abc passesGuard_def)

section \<open>The submit button\<close>

lemma parseFloat_Nil: "parseFloat [] = NaN"
  by (simp add: parseFloat_def)

lemma parseFloat_5000: "parseFloat ''5000'' = Fin 5000"
  by (simp add: parseFloat_def parseUnsigned_def isWhite_def isDigit_def digitsVal_def
      exponentPart_def)

lemma outcomeOf_hard_iff: "outcomeOf cs = hard \<longleftrightarrow> (\<exists>c\<in>set cs. severity c = hard)"
  by (auto simp: outcomeOf_def list_ex_iff)

text \<open>
  Claim C8.  The submit button is disabled unless a security is chosen, the entered
  quantity or amount parses to a value greater than 0, the investment account and the cash
  account are chosen, and the outcome of the engine is not \<open>hard\<close>.  So it is disabled in
  every state in which the outcome is \<open>hard\<close>, which is the case exactly when some result
  of the engine is hard, and in every state in which a required field is missing.
\<close>

theorem submit_disabled_unless_complete_and_not_hard:
  "(\<not> submitDisabled ref st \<longleftrightarrow>
      selectedSecurity st \<noteq> None \<and>
      jgt (parseFloat (inputValue st)) (Fin 0) \<and>
      CreateOrderDialogState.investmentAccount st \<noteq> [] \<and>
      CreateOrderDialogState.cashAccount st \<noteq> [] \<and>
      outcome (usePreTradeOutcome ref (dialogProps st)) \<noteq> hard) \<and>
   (outcome (usePreTradeOutcome ref (dialogProps st)) = hard \<longrightarrow> submitDisabled ref st) \<and>
   ((\<exists>c\<in>set (checks (usePreTradeOutcome ref (dialogProps st))). severity c = hard) \<longrightarrow>
      submitDisabled ref st) \<and>
   (selectedSecurity st = None \<or> inputValue st = [] \<or>
    \<not> jgt (parseFloat (inputValue st)) (Fin 0) \<or>
    CreateOrderDialogState.investmentAccount st = [] \<or>
    CreateOrderDialogState.cashAccount st = [] \<longrightarrow> submitDisabled ref st)"
proof -
  have nonempty: "jgt (parseFloat (inputValue st)) (Fin 0) \<Longrightarrow> inputValue st \<noteq> []"
    by (auto simp: parseFloat_Nil)
  have hard: "(\<exists>c\<in>set (checks (usePreTradeOutcome ref (dialogProps st))). severity c = hard) \<longleftrightarrow>
      outcome (usePreTradeOutcome ref (dialogProps st)) = hard"
    by (simp add: usePreTradeOutcome_sel outcomeOf_hard_iff)
  show ?thesis
    unfolding hard using nonempty
    by (auto simp: submitDisabled_def canSubmit_def formComplete_def)
qed

lemma filledDialog_AAPL_severities:
  "map severity (runChecks mockData (dialogProps (filledDialog AAPL ''5000''))) =
     [pass, pass, pass]"
  by (simp add: dialogProps_def filledDialog_def orderAmountOf_def parseFloat_5000 jor_def
      runChecks_def AAPL_def mockData_def rule_defs lookupOr0_def concentration_def
      newExposure_def holdingOr0_def)

lemma filledDialog_MUNI7Y_severities:
  "map severity (runChecks mockData (dialogProps (filledDialog MUNI7Y ''5000''))) =
     [hard, pass, pass, pass]"
  by (simp add: dialogProps_def filledDialog_def orderAmountOf_def parseFloat_5000 jor_def
      runChecks_def MUNI7Y_def mockData_def rule_defs lookupOr0_def concentration_def
      newExposure_def holdingOr0_def)

lemma severity_in_map: "s \<in> set (map severity cs) \<longleftrightarrow> (\<exists>c\<in>set cs. severity c = s)"
  by (induction cs) auto

lemma outcomeOf_by_severities:
  "outcomeOf cs =
     (if hard \<in> set (map severity cs) then hard
      else if soft \<in> set (map severity cs) then soft
      else if warning \<in> set (map severity cs) then warning
      else pass)"
  by (simp only: outcomeOf_def list_ex_iff severity_in_map)

theorem submit_disabled_unless_complete_and_not_hard_witness:
  "\<not> submitDisabled mockData (filledDialog AAPL ''5000'') \<and>
   submitDisabled mockData (filledDialog MUNI7Y ''5000'') \<and>
   submitDisabled mockData (filledDialog AAPL []) \<and>
   submitDisabled mockData
     ((filledDialog AAPL ''5000'')\<lparr>CreateOrderDialogState.cashAccount := []\<rparr>) \<and>
   submitDisabled mockData ((filledDialog AAPL ''5000'')\<lparr>selectedSecurity := None\<rparr>)"
proof -
  have a: "outcome (usePreTradeOutcome mockData (dialogProps (filledDialog AAPL ''5000''))) = pass"
    by (simp only: usePreTradeOutcome_sel outcomeOf_by_severities filledDialog_AAPL_severities)
      simp
  have m: "outcome (usePreTradeOutcome mockData (dialogProps (filledDialog MUNI7Y ''5000''))) = hard"
    by (simp only: usePreTradeOutcome_sel outcomeOf_by_severities filledDialog_MUNI7Y_severities)
      simp
  have 1: "\<not> submitDisabled mockData (filledDialog AAPL ''5000'')"
    using submit_disabled_unless_complete_and_not_hard [of mockData "filledDialog AAPL ''5000''"] a
    by (simp add: filledDialog_def parseFloat_5000)
  have 2: "submitDisabled mockData (filledDialog MUNI7Y ''5000'')"
    using submit_disabled_unless_complete_and_not_hard [of mockData "filledDialog MUNI7Y ''5000''"] m
    by blast
  have 3: "submitDisabled mockData (filledDialog AAPL [])"
    using submit_disabled_unless_complete_and_not_hard [of mockData "filledDialog AAPL []"]
    by (simp add: filledDialog_def)
  have 4: "submitDisabled mockData
      ((filledDialog AAPL ''5000'')\<lparr>CreateOrderDialogState.cashAccount := []\<rparr>)"
    using submit_disabled_unless_complete_and_not_hard [of mockData
        "(filledDialog AAPL ''5000'')\<lparr>CreateOrderDialogState.cashAccount := []\<rparr>"]
    by simp
  have 5: "submitDisabled mockData ((filledDialog AAPL ''5000'')\<lparr>selectedSecurity := None\<rparr>)"
    using submit_disabled_unless_complete_and_not_hard [of mockData
        "(filledDialog AAPL ''5000'')\<lparr>selectedSecurity := None\<rparr>"]
    by simp
  from 1 2 3 4 5 show ?thesis by blast
qed

section \<open>Warnings and urgency of an order awaiting approval\<close>



lemma withWarnings_sel:
  "warnings (withWarnings base) = generateWarnings base"
  "urgency (withWarnings base) = (if 2 \<le> length (generateWarnings base) then high else normal)"
  "id' (withWarnings base) = id' base"
  "approvalStatus (withWarnings base) = approvalStatus base"
  "approvalComment (withWarnings base) = approvalComment base"
  by (simp_all add: withWarnings_def Let_def ApprovalBase.defs ApprovalOrder.defs)




section \<open>Approving and rejecting\<close>

lemma sameOtherFields_update:
  "sameOtherFields (ord\<lparr>approvalStatus := s, approvalComment := c\<rparr>) ord"
  by (simp add: sameOtherFields_def)

lemma sameOtherFields_refl: "sameOtherFields ord ord"
  by (simp add: sameOtherFields_def)

lemma map_unchanged: "(\<forall>x\<in>set xs. \<not> P x) \<Longrightarrow> map (\<lambda>x. if P x then f x else x) xs = xs"
  by (induction xs) auto

text \<open>
  Claim C10.  For every list of approval orders, every order id and every comment, the
  approve handler and the reject handler each return a list of the same length and in the
  same order.  An order whose id is the given id has its \<^verbatim>\<open>approvalStatus\<close> set to
  \<open>Approved\<close>, respectively \<open>Rejected\<close>, and its \<^verbatim>\<open>approvalComment\<close> set to the given
  comment, where the approve handler puts \<open>Approved.\<close> for the empty comment; every other
  field of it is unchanged.  Every other order is unchanged, and an id that matches no
  order leaves the list as it is.
\<close>

theorem approve_reject_frame:
  "length (handleApprove orderId comment prev) = length prev \<and>
   length (handleReject orderId comment prev) = length prev \<and>
   map id' (handleApprove orderId comment prev) = map id' prev \<and>
   map id' (handleReject orderId comment prev) = map id' prev \<and>
   (\<forall>i<length prev.
      (id' (prev ! i) = orderId \<longrightarrow>
         handleApprove orderId comment prev ! i =
           (prev ! i)\<lparr>approvalStatus := Approved,
                      approvalComment := Some (if comment = [] then ''Approved.'' else comment)\<rparr> \<and>
         handleReject orderId comment prev ! i =
           (prev ! i)\<lparr>approvalStatus := Rejected, approvalComment := Some comment\<rparr>) \<and>
      (id' (prev ! i) \<noteq> orderId \<longrightarrow>
         handleApprove orderId comment prev ! i = prev ! i \<and>
         handleReject orderId comment prev ! i = prev ! i) \<and>
      sameOtherFields (handleApprove orderId comment prev ! i) (prev ! i) \<and>
      sameOtherFields (handleReject orderId comment prev ! i) (prev ! i)) \<and>
   ((\<forall>ord\<in>set prev. id' ord \<noteq> orderId) \<longrightarrow>
      handleApprove orderId comment prev = prev \<and> handleReject orderId comment prev = prev)"
proof -
  have 1: "length (handleApprove orderId comment prev) = length prev"
    and 2: "length (handleReject orderId comment prev) = length prev"
    by (simp_all add: handleApprove_def handleReject_def)
  have 3: "map id' (handleApprove orderId comment prev) = map id' prev"
    and 4: "map id' (handleReject orderId comment prev) = map id' prev"
    by (simp_all add: handleApprove_def handleReject_def)
  have 5: "\<forall>i<length prev.
      (id' (prev ! i) = orderId \<longrightarrow>
         handleApprove orderId comment prev ! i =
           (prev ! i)\<lparr>approvalStatus := Approved,
                      approvalComment := Some (if comment = [] then ''Approved.'' else comment)\<rparr> \<and>
         handleReject orderId comment prev ! i =
           (prev ! i)\<lparr>approvalStatus := Rejected, approvalComment := Some comment\<rparr>) \<and>
      (id' (prev ! i) \<noteq> orderId \<longrightarrow>
         handleApprove orderId comment prev ! i = prev ! i \<and>
         handleReject orderId comment prev ! i = prev ! i) \<and>
      sameOtherFields (handleApprove orderId comment prev ! i) (prev ! i) \<and>
      sameOtherFields (handleReject orderId comment prev ! i) (prev ! i)"
    by (simp add: handleApprove_def handleReject_def sameOtherFields_update sameOtherFields_refl)
  have 6: "(\<forall>ord\<in>set prev. id' ord \<noteq> orderId) \<longrightarrow>
      handleApprove orderId comment prev = prev \<and> handleReject orderId comment prev = prev"
    by (simp add: handleApprove_def handleReject_def map_unchanged)
  from 1 2 3 4 5 6 show ?thesis by blast
qed

lemma pendingOrders_ids: "map id' pendingOrders = [''APR-000'', ''APR-001'', ''APR-002'']"
  by (simp add: pendingOrders_def withWarnings_sel approvalBase_def)

theorem approve_reject_frame_witness:
  "map approvalStatus (handleApprove ''APR-001'' [] pendingOrders) =
     [PendingApproval, Approved, PendingApproval] \<and>
   map approvalComment (handleApprove ''APR-001'' [] pendingOrders) =
     [None, Some ''Approved.'', None] \<and>
   map approvalStatus (handleReject ''APR-002'' ''Exceeds risk limits.'' pendingOrders) =
     [PendingApproval, PendingApproval, Rejected] \<and>
   map approvalComment (handleReject ''APR-002'' ''Exceeds risk limits.'' pendingOrders) =
     [None, None, Some ''Exceeds risk limits.''] \<and>
   handleApprove ''APR-777'' ''Fine.'' pendingOrders = pendingOrders \<and>
   handleReject ''APR-777'' ''No.'' pendingOrders = pendingOrders \<and>
   sameOtherFields (handleApprove ''APR-001'' [] pendingOrders ! 1) (pendingOrders ! 1)"
proof -
  have absent: "''APR-777'' \<notin> id' ` set pendingOrders"
    by (simp flip: set_map add: pendingOrders_ids)
  have none: "\<forall>ord\<in>set pendingOrders. id' ord \<noteq> ''APR-777''"
  proof (intro ballI notI)
    fix ord
    assume "ord \<in> set pendingOrders" and eq: "id' ord = ''APR-777''"
    then have "id' ord \<in> id' ` set pendingOrders" by (intro imageI)
    with eq absent show False by simp
  qed
  have one: "(1::nat) < length pendingOrders"
    by (simp add: pendingOrders_def)
  have a: "map approvalStatus (handleApprove ''APR-001'' [] pendingOrders) =
      [PendingApproval, Approved, PendingApproval]"
    and b: "map approvalComment (handleApprove ''APR-001'' [] pendingOrders) =
      [None, Some ''Approved.'', None]"
    and c: "map approvalStatus (handleReject ''APR-002'' ''Exceeds risk limits.'' pendingOrders) =
      [PendingApproval, PendingApproval, Rejected]"
    and d: "map approvalComment (handleReject ''APR-002'' ''Exceeds risk limits.'' pendingOrders) =
      [None, None, Some ''Exceeds risk limits.'']"
    by (simp_all add: handleApprove_def handleReject_def pendingOrders_def withWarnings_sel
        approvalBase_def)
  from none approve_reject_frame [of "''APR-777''" "''Fine.''" pendingOrders]
  have e: "handleApprove ''APR-777'' ''Fine.'' pendingOrders = pendingOrders"
    by blast
  from none approve_reject_frame [of "''APR-777''" "''No.''" pendingOrders]
  have f: "handleReject ''APR-777'' ''No.'' pendingOrders = pendingOrders"
    by blast
  from one approve_reject_frame [of "''APR-001''" "[]" pendingOrders]
  have g: "sameOtherFields (handleApprove ''APR-001'' [] pendingOrders ! 1) (pendingOrders ! 1)"
    by blast
  from a b c d e f g show ?thesis by blast
qed

end
